theory Spec2Isabelle
  imports Main "HOL-Library.Word"
begin

section \<open>Go runtime notions used by the tunnel server and client\<close>

text \<open>
  Go's \<open>int\<close>, \<open>int64\<close> and \<open>time.Duration\<close> are 64-bit two's complement integers
  (on the 64-bit platforms the server runs on). They are modelled as \<open>int\<close>, and every
  arithmetic result goes through \<open>wrap64\<close>.
\<close>

definition wrap64 :: "int \<Rightarrow> int" where
  "wrap64 x = (x + 2 ^ 63) mod 2 ^ 64 - 2 ^ 63"

definition in_int64 :: "int \<Rightarrow> bool" where
  "in_int64 x \<longleftrightarrow> - (2 ^ 63) \<le> x \<and> x < 2 ^ 63"


text \<open>
  A buffered channel: the queued elements (oldest first), the capacity given to
  \<open>make\<close>, and whether \<open>close\<close> has been called.
\<close>

record 'a chan =
  ch_buf :: "'a list"
  ch_cap :: nat
  ch_closed :: bool

definition make_chan :: "nat \<Rightarrow> 'a chan" where
  "make_chan n = \<lparr>ch_buf = [], ch_cap = n, ch_closed = False\<rparr>"

text \<open>
  \<open>ch <- x\<close>: a send on a closed channel panics; a send on an open channel with room
  appends; a send on a full open channel cannot proceed.
\<close>

datatype 'a send_result = Sent "'a chan" | SendPanic | SendBlocks

definition chan_send :: "'a chan \<Rightarrow> 'a \<Rightarrow> 'a send_result" where
  "chan_send ch x =
     (if ch_closed ch then SendPanic
      else if length (ch_buf ch) < ch_cap ch then Sent (ch\<lparr>ch_buf := ch_buf ch @ [x]\<rparr>)
      else SendBlocks)"



section \<open>Server side: data model (server/control.go)\<close>

text \<open>A work connection is known by its identity only.\<close>

type_synonym conn = nat

datatype message =
    ReqWorkConn
  | NewProxyResp string string string
  | Pong string

text \<open>The fields of \<open>config.ServerCommonConf\<close> that \<open>Control\<close> reads.\<close>

record server_conf =
  MaxPoolCount :: int
  MaxPortsPerClient :: int
  UserConnTimeout :: int

text \<open>
  \<open>proxy.Proxy\<close> is an interface whose implementations are outside this file; a proxy
  is the value of the two getters \<open>Control\<close> calls on it.
\<close>

record proxy =
  GetName :: string
  GetUsedPortsNum :: int

record control =
  runId :: string
  sendCh :: "message chan"
  workConnCh :: "conn chan"
  proxies :: "string \<rightharpoonup> proxy"
  poolCount :: int
  portsUsedNum :: int
  allShutdownStarted :: bool
  serverCfg :: server_conf

subsection \<open>ControlManager\<close>

text \<open>
  \<open>ctlsByRunId\<close> maps a run id to a \<open>*Control\<close>. Pointer identity matters in \<open>Del\<close>, and
  \<open>Add\<close> mutates the object behind the old pointer, so controls live in a store indexed
  by address. \<open>Add\<close> is only ever given the address of a live \<open>Control\<close>, so the table
  holds no nil pointer; the nil that \<open>Add\<close> returns for a missing key is \<open>None\<close>.
\<close>

type_synonym ctl_ptr = nat

record control_manager =
  ctlsByRunId :: "string \<rightharpoonup> ctl_ptr"

type_synonym store = "ctl_ptr \<Rightarrow> control"

definition NewControlManager :: control_manager where
  "NewControlManager = \<lparr>ctlsByRunId = Map.empty\<rparr>"

text \<open>\<open>Replaced\<close> clears the run id and starts the shutdown of the whole control.\<close>

definition Replaced :: "control \<Rightarrow> control \<Rightarrow> control" where
  "Replaced ctl newCtl = ctl\<lparr>runId := [], allShutdownStarted := True\<rparr>"

definition Add :: "string \<Rightarrow> ctl_ptr \<Rightarrow> control_manager \<times> store
    \<Rightarrow> ctl_ptr option \<times> control_manager \<times> store" where
  "Add rid ctl s =
     (let cm = fst s; h = snd s;
          oldCtl = ctlsByRunId cm rid;
          h' = (case oldCtl of
                  Some p \<Rightarrow> h(p := Replaced (h p) (h ctl))
                | None \<Rightarrow> h)
      in (oldCtl, cm\<lparr>ctlsByRunId := (ctlsByRunId cm)(rid \<mapsto> ctl)\<rparr>, h'))"

definition Del :: "string \<Rightarrow> ctl_ptr \<Rightarrow> control_manager \<Rightarrow> control_manager" where
  "Del rid ctl cm =
     (case ctlsByRunId cm rid of
        Some c \<Rightarrow> if c = ctl then cm\<lparr>ctlsByRunId := (ctlsByRunId cm)(rid := None)\<rparr> else cm
      | None \<Rightarrow> cm)"

definition GetById :: "string \<Rightarrow> control_manager \<Rightarrow> ctl_ptr option" where
  "GetById rid cm = ctlsByRunId cm rid"

subsection \<open>Control: construction and the work-connection pool\<close>

text \<open>The fields of \<open>msg.Login\<close> that \<open>NewControl\<close> reads.\<close>

record login_msg =
  PoolCount :: int
  RunId :: string

text \<open>
  \<open>make(chan net.Conn, n)\<close> panics unless \<open>0 \<le> n\<close> and the buffer of \<open>n\<close> interface
  values of 16 bytes fits below the allocation limit of the runtime, less the channel
  header (\<open>16 * n \<le> maxAlloc - hchanSize\<close>, with \<open>2 ^ 48\<close> and 96 bytes on 64-bit
  Linux). Whether the machine has the memory for a buffer below that limit is outside
  the model.
\<close>

definition max_chan_conns :: int where
  "max_chan_conns = (2 ^ 48 - 96) div 16"

text \<open>
  \<open>NewControl\<close> clamps the pool count to \<open>MaxPoolCount\<close> and makes the pool with
  \<open>poolCount + 10\<close> slots and the send queue with 10. A panic of \<open>make\<close> is the
  result \<open>None\<close>.
\<close>

definition NewControl :: "login_msg \<Rightarrow> server_conf \<Rightarrow> control option" where
  "NewControl loginMsg cfg =
     (let pc = (if PoolCount loginMsg > MaxPoolCount cfg then MaxPoolCount cfg
                else PoolCount loginMsg)
      in if wrap64 (pc + 10) < 0 \<or> max_chan_conns < wrap64 (pc + 10) then None
         else Some \<lparr>runId = RunId loginMsg,
                    sendCh = make_chan 10,
                    workConnCh = make_chan (nat (wrap64 (pc + 10))),
                    proxies = Map.empty,
                    poolCount = pc,
                    portsUsedNum = 0,
                    allShutdownStarted = False,
                    serverCfg = cfg\<rparr>)"

text \<open>
  \<open>RegisterWorkConn\<close> is a \<open>select\<close> with a send case and a \<open>default\<close>. Go's error
  result is \<open>None\<close> for nil. A send on the closed pool panics inside the \<open>select\<close>; the
  deferred \<open>recover\<close> swallows the panic and the function returns the zero value of its
  unnamed result, nil.
\<close>

definition RegisterWorkConn :: "conn \<Rightarrow> control \<Rightarrow> string option \<times> control" where
  "RegisterWorkConn c ctl =
     (case chan_send (workConnCh ctl) c of
        Sent ch \<Rightarrow> (None, ctl\<lparr>workConnCh := ch\<rparr>)
      | SendBlocks \<Rightarrow> (Some ''work connection pool is full, discarding'', ctl)
      | SendPanic \<Rightarrow> (None, ctl))"

text \<open>
  \<open>GetWorkConn\<close> waits in two kinds of places, and what ends a wait is decided by the
  other tasks; it is an input of the call.

  A send on the send queue (\<open>ctl.sendCh <- &msg.ReqWorkConn{}\<close>) waits while the
  queue is full: until the writer task takes a message, or until the stopper closes
  the queue (the send then panics), or for ever when the writer is stuck.
\<close>

datatype writer_event = WriterTakes | QueueCloses | WriterStuck



text \<open>
  What happens to the pool while the call waits, and how many nanoseconds after the
  wait began: another task registers a connection, the stopper closes the pool, or
  nothing happens before the timer has fired.
\<close>

datatype pool_event = ConnArrives nat conn | PoolCloses nat | Quiet

text \<open>
  The inputs of one call: what ends the wait of the send at a miss, what happens to
  the pool, which case the \<open>select\<close> picks when the pool and the timer are ready at
  the same instant (Go picks one at random), and what ends the wait of the last send.
\<close>

record tasks =
  miss_send :: writer_event
  pool_wait :: pool_event
  tie_to_pool :: bool
  replenish_send :: writer_event


fun event_time :: "pool_event \<Rightarrow> int" where
  "event_time (ConnArrives t c) = int t"
| "event_time (PoolCloses t) = int t"
| "event_time Quiet = 0"






text \<open>
  The sends of a call go through: the send queue is open, it holds no more than its
  capacity, which is two or more (\<open>NewControl\<close> makes it with ten slots), and it has
  two free slots or the writer takes a message whenever a send waits.
\<close>

definition sends_go_through :: "tasks \<Rightarrow> control \<Rightarrow> bool" where
  "sends_go_through env ctl \<longleftrightarrow>
     \<not> ch_closed (sendCh ctl) \<and> 2 \<le> ch_cap (sendCh ctl) \<and>
     length (ch_buf (sendCh ctl)) \<le> ch_cap (sendCh ctl) \<and>
     (length (ch_buf (sendCh ctl)) + 2 \<le> ch_cap (sendCh ctl) \<or>
      (miss_send env = WriterTakes \<and> replenish_send env = WriterTakes))"

text \<open>The pool has the size \<open>NewControl\<close> gave it and holds no more than that.\<close>

definition pool_sized :: "control \<Rightarrow> bool" where
  "pool_sized ctl \<longleftrightarrow>
     int (ch_cap (workConnCh ctl)) = poolCount ctl + 10 \<and>
     length (ch_buf (workConnCh ctl)) \<le> ch_cap (workConnCh ctl)"

text \<open>Concrete controls and tables used to exercise the functions.\<close>

definition cfg0 :: server_conf where
  "cfg0 = \<lparr>MaxPoolCount = 5, MaxPortsPerClient = 2, UserConnTimeout = 10\<rparr>"

definition ctl0 :: control where
  "ctl0 = \<lparr>runId = ''r1'', sendCh = make_chan 10, workConnCh = make_chan 10,
           proxies = Map.empty, poolCount = 0, portsUsedNum = 0,
           allShutdownStarted = False, serverCfg = cfg0\<rparr>"

definition cm0 :: control_manager where
  "cm0 = \<lparr>ctlsByRunId = [''r1'' \<mapsto> 1]\<rparr>"

definition full_ctl :: control where
  "full_ctl = ctl0\<lparr>workConnCh :=
     \<lparr>ch_buf = [1, 2, 3, 4, 5, 6, 7, 8, 9, 10], ch_cap = 10, ch_closed = False\<rparr>\<rparr>"

definition closed_pool_ctl :: control where
  "closed_pool_ctl = ctl0\<lparr>workConnCh := \<lparr>ch_buf = [], ch_cap = 10, ch_closed = True\<rparr>\<rparr>"






subsection \<open>Control: proxies of one client\<close>

text \<open>The fields of \<open>msg.NewProxy\<close> that \<open>RegisterProxy\<close> itself reads.\<close>

record new_proxy_msg =
  ProxyName :: string
  ProxyType :: string

text \<open>
  \<open>RegisterProxy\<close> calls three things that are outside this file and are parameters
  here: \<open>config.NewProxyConfFromMsg\<close> (message and server configuration to a proxy
  configuration, or an error), the factory \<open>proxy.NewProxy\<close> (run id, pool count,
  configuration and server configuration to a proxy, or an error) and the proxy's
  \<open>Run\<close> (the remote address, or an error).
\<close>

record 'conf collaborators =
  NewProxyConfFromMsg :: "new_proxy_msg \<Rightarrow> server_conf \<Rightarrow> string + 'conf"
  NewProxy :: "string \<Rightarrow> int \<Rightarrow> 'conf \<Rightarrow> server_conf \<Rightarrow> string + proxy"
  Run :: "proxy \<Rightarrow> string + string"

text \<open>
  What \<open>RegisterProxy\<close> and \<open>CloseProxy\<close> touch: the control, the process-wide
  \<open>ProxyManager\<close>, and the proxies on which \<open>Close\<close> has been called (latest last).
\<close>

record server_state =
  sctl :: control
  pxyManager :: "string \<rightharpoonup> proxy"
  pxyClosed :: "proxy list"

text \<open>
  Modelled from the spec: \<open>ProxyManager.Add\<close> and \<open>ProxyManager.Del\<close> (package
  \<open>server/proxy\<close>, not among the sources). The spec: "Register in the process-wide
  ProxyManager (name must be globally unique; failure here closes the proxy and releases
  ports)" and "deregister from ProxyManager".
\<close>

definition pm_Add :: "string \<Rightarrow> proxy \<Rightarrow> (string \<rightharpoonup> proxy) \<Rightarrow> string + (string \<rightharpoonup> proxy)" where
  "pm_Add name pxy pm =
     (case pm name of
        Some _ \<Rightarrow> Inl (''proxy name ['' @ name @ ''] is already in use'')
      | None \<Rightarrow> Inr (pm(name \<mapsto> pxy)))"

definition pm_Del :: "string \<Rightarrow> (string \<rightharpoonup> proxy) \<Rightarrow> (string \<rightharpoonup> proxy)" where
  "pm_Del name pm = pm(name := None)"

text \<open>Go's \<open>+\<close> and \<open>-\<close> on \<open>int\<close>.\<close>

definition go_add :: "int \<Rightarrow> int \<Rightarrow> int" where
  "go_add a b = wrap64 (a + b)"

definition go_sub :: "int \<Rightarrow> int \<Rightarrow> int" where
  "go_sub a b = wrap64 (a - b)"

text \<open>
  The first deferred function of \<open>RegisterProxy\<close>, installed only when
  \<open>MaxPortsPerClient > 0\<close>: on an error return it gives the ports back.
\<close>

definition release_ports :: "proxy \<Rightarrow> server_state \<Rightarrow> server_state" where
  "release_ports pxy s =
     (if MaxPortsPerClient (serverCfg (sctl s)) > 0
      then s\<lparr>sctl := (sctl s)\<lparr>portsUsedNum :=
                 go_sub (portsUsedNum (sctl s)) (GetUsedPortsNum pxy)\<rparr>\<rparr>
      else s)"

text \<open>
  \<open>RegisterProxy\<close> returns the remote address (\<open>Inr\<close>) or an error (\<open>Inl\<close>). The
  deferred functions run on return, last installed first: after a failed
  \<open>pxyManager.Add\<close> the proxy is closed and then the ports are released; after a
  failed \<open>Run\<close> only the ports are released.
\<close>

definition RegisterProxy :: "'conf collaborators \<Rightarrow> new_proxy_msg \<Rightarrow> server_state
    \<Rightarrow> (string + string) \<times> server_state" where
  "RegisterProxy env pxyMsg s =
     (let cfg = serverCfg (sctl s) in
      case NewProxyConfFromMsg env pxyMsg cfg of
        Inl err \<Rightarrow> (Inl err, s)
      | Inr pxyConf \<Rightarrow>
          (case NewProxy env (runId (sctl s)) (poolCount (sctl s)) pxyConf cfg of
             Inl err \<Rightarrow> (Inl err, s)
           | Inr pxy \<Rightarrow>
               if MaxPortsPerClient cfg > 0 \<and>
                  go_add (portsUsedNum (sctl s)) (GetUsedPortsNum pxy) > MaxPortsPerClient cfg
               then (Inl ''exceed the max_ports_per_client'', s)
               else
                 (let s1 = (if MaxPortsPerClient cfg > 0
                            then s\<lparr>sctl := (sctl s)\<lparr>portsUsedNum :=
                                   go_add (portsUsedNum (sctl s)) (GetUsedPortsNum pxy)\<rparr>\<rparr>
                            else s)
                  in case Run env pxy of
                       Inl err \<Rightarrow> (Inl err, release_ports pxy s1)
                     | Inr remoteAddr \<Rightarrow>
                         (case pm_Add (ProxyName pxyMsg) pxy (pxyManager s1) of
                            Inl err \<Rightarrow>
                              (Inl err,
                               release_ports pxy (s1\<lparr>pxyClosed := pxyClosed s1 @ [pxy]\<rparr>))
                          | Inr pm \<Rightarrow>
                              (Inr remoteAddr,
                               s1\<lparr>pxyManager := pm,
                                  sctl := (sctl s1)\<lparr>proxies :=
                                    (proxies (sctl s1))(GetName pxy \<mapsto> pxy)\<rparr>\<rparr>)))))"

text \<open>\<open>CloseProxy\<close> always returns nil; only its effect is modelled.\<close>

definition CloseProxy :: "string \<Rightarrow> server_state \<Rightarrow> server_state" where
  "CloseProxy name s =
     (case proxies (sctl s) name of
        None \<Rightarrow> s
      | Some pxy \<Rightarrow>
          (let c = sctl s;
               c1 = (if MaxPortsPerClient (serverCfg c) > 0
                     then c\<lparr>portsUsedNum := go_sub (portsUsedNum c) (GetUsedPortsNum pxy)\<rparr>
                     else c)
           in s\<lparr>sctl := c1\<lparr>proxies := (proxies c1)(name := None)\<rparr>,
                pxyManager := pm_Del (GetName pxy) (pxyManager s),
                pxyClosed := pxyClosed s @ [pxy]\<rparr>))"

text \<open>Collaborators and states used to exercise \<open>RegisterProxy\<close>.\<close>

definition env0 :: "string collaborators" where
  "env0 = \<lparr>NewProxyConfFromMsg = (\<lambda>m cfg. Inr (ProxyName m)),
           NewProxy = (\<lambda>rid pc conf cfg.
              Inr \<lparr>GetName = conf, GetUsedPortsNum = (if conf = ''big'' then 3 else 1)\<rparr>),
           Run = (\<lambda>pxy. if GetName pxy = ''norun'' then Inl ''listen failed''
                         else Inr '':6000'')\<rparr>"

definition st0 :: server_state where
  "st0 = \<lparr>sctl = ctl0\<lparr>portsUsedNum := 1\<rparr>,
          pxyManager = [''taken'' \<mapsto> \<lparr>GetName = ''taken'', GetUsedPortsNum = 1\<rparr>],
          pxyClosed = []\<rparr>"

definition web_msg :: new_proxy_msg where
  "web_msg = \<lparr>ProxyName = ''web'', ProxyType = ''tcp''\<rparr>"

definition big_msg :: new_proxy_msg where
  "big_msg = \<lparr>ProxyName = ''big'', ProxyType = ''tcp''\<rparr>"

definition norun_msg :: new_proxy_msg where
  "norun_msg = \<lparr>ProxyName = ''norun'', ProxyType = ''tcp''\<rparr>"

definition taken_msg :: new_proxy_msg where
  "taken_msg = \<lparr>ProxyName = ''taken'', ProxyType = ''tcp''\<rparr>"

section \<open>Client side: the session supervisor (client/service.go)\<close>

















section \<open>Unique id of a host (client/service.go, utils/util/util.go)\<close>

unbundle bit_operations_syntax

text \<open>The run-time panics these routines can raise.\<close>

datatype panic = IndexOutOfRange | SliceBoundsOutOfRange | NilPointerDereference

type_synonym byte = "8 word"

text \<open>The fields of \<open>net.Interface\<close> that are read; \<open>net.HardwareAddr\<close> is a byte slice.\<close>

record interface =
  Name :: string
  HardwareAddr :: "byte list"

subsection \<open>Library functions the routines call\<close>

text \<open>
  \<open>HardwareAddr.String\<close> of package \<open>net\<close>: empty for the empty address, otherwise
  two lower-case hexadecimal digits per byte (\<open>hexDigit[b>>4]\<close>, \<open>hexDigit[b&0xF]\<close>),
  separated by colons. This is also what \<open>fmt.Sprintf("%v", inter.HardwareAddr)\<close>
  gives.
\<close>

definition hexDigit :: "nat \<Rightarrow> char" where
  "hexDigit n = ''0123456789abcdef'' ! n"

definition byte_hex :: "byte \<Rightarrow> string" where
  "byte_hex b = [hexDigit (unat (drop_bit 4 b)), hexDigit (unat (b AND 0xF))]"

fun String_loop :: "nat \<Rightarrow> byte list \<Rightarrow> string" where
  "String_loop i [] = []"
| "String_loop i (b # bs) =
     (if i > 0 then '':'' else []) @ byte_hex b @ String_loop (Suc i) bs"

definition HardwareAddr_String :: "byte list \<Rightarrow> string" where
  "HardwareAddr_String a = (if length a = 0 then [] else String_loop 0 a)"

text \<open>\<open>strings.Replace(s, ":", "", -1)\<close>.\<close>

definition strip_colons :: "string \<Rightarrow> string" where
  "strip_colons s = filter (\<lambda>c. c \<noteq> CHR '':'') s"

text \<open>
  \<open>(*big.Int).SetString(s, 16)\<close>: an optional sign, then at least one digit, all of
  the string being digits of base 16 in either case; on failure the result is nil
  (\<open>None\<close>).
\<close>

definition digit_val :: "char \<Rightarrow> nat option" where
  "digit_val c =
     (let n = (of_char c :: nat)
      in if 48 \<le> n \<and> n \<le> 57 then Some (n - 48)
         else if 97 \<le> n \<and> n \<le> 102 then Some (n - 87)
         else if 65 \<le> n \<and> n \<le> 70 then Some (n - 55)
         else None)"

fun scan_hex :: "nat \<Rightarrow> string \<Rightarrow> nat option" where
  "scan_hex acc [] = Some acc"
| "scan_hex acc (c # cs) =
     (case digit_val c of None \<Rightarrow> None | Some d \<Rightarrow> scan_hex (16 * acc + d) cs)"

definition scan_number :: "string \<Rightarrow> nat option" where
  "scan_number s = (if s = [] then None else scan_hex 0 s)"

definition SetString16 :: "string \<Rightarrow> int option" where
  "SetString16 s =
     (case s of
        [] \<Rightarrow> None
      | c # r \<Rightarrow>
          if c = CHR ''-'' then map_option (\<lambda>n. - int n) (scan_number r)
          else if c = CHR ''+'' then map_option int (scan_number r)
          else map_option int (scan_number s))"

text \<open>
  \<open>decimal.Decimal\<close> of package \<open>shopspring/decimal\<close> is \<open>value * 10 ^ exp\<close>. The
  exponent is an \<open>int32\<close> in the library; the routines only build decimals with
  exponent 1, and the model covers the exponents that are not negative.
  \<open>NewFromBigInt\<close> copies its argument with \<open>(*big.Int).Set\<close>, which dereferences it.
\<close>

record decimal =
  d_value :: int
  d_exp :: nat

definition NewFromBigInt :: "int option \<Rightarrow> nat \<Rightarrow> panic + decimal" where
  "NewFromBigInt v e =
     (case v of
        None \<Rightarrow> Inl NilPointerDereference
      | Some n \<Rightarrow> Inr \<lparr>d_value = n, d_exp = e\<rparr>)"

text \<open>\<open>d.rescale(0).value\<close>\<close>

definition rescale0 :: "decimal \<Rightarrow> int" where
  "rescale0 d = d_value d * 10 ^ d_exp d"

text \<open>\<open>d.Cmp(d2) == -1\<close>: both are rescaled to the smaller exponent and compared.\<close>

definition LessThan :: "decimal \<Rightarrow> decimal \<Rightarrow> bool" where
  "LessThan d d2 =
     (let e = min (d_exp d) (d_exp d2)
      in d_value d * 10 ^ (d_exp d - e) < d_value d2 * 10 ^ (d_exp d2 - e))"

text \<open>Decimal digits of an integer, as \<open>(*big.Int).String\<close> and \<open>%v\<close> print them.\<close>

fun nat_String :: "nat \<Rightarrow> string" where
  "nat_String n =
     (if n < 10 then [hexDigit n] else nat_String (n div 10) @ [hexDigit (n mod 10)])"

declare nat_String.simps [simp del]

definition int_String :: "int \<Rightarrow> string" where
  "int_String i = (if i < 0 then CHR ''-'' # nat_String (nat (- i)) else nat_String (nat i))"

definition decimal_String :: "decimal \<Rightarrow> string" where
  "decimal_String d = int_String (rescale0 d)"

text \<open>\<open>d.IntPart()\<close> is \<open>d.rescale(0).value.Int64()\<close>: the low 64 bits.\<close>

definition IntPart :: "decimal \<Rightarrow> int" where
  "IntPart d = wrap64 (rescale0 d)"

text \<open>\<open>fmt.Sprintf("%x", bytes)\<close>\<close>

definition hex_encode :: "byte list \<Rightarrow> string" where
  "hex_encode bs = concat (map byte_hex bs)"

text \<open>\<open>[]byte(s)\<close>\<close>

definition bytes_of :: "string \<Rightarrow> byte list" where
  "bytes_of s = map (\<lambda>c. of_nat (of_char c)) s"

subsection \<open>SHA-1 (package crypto/sha1, after FIPS 180-4)\<close>

definition be32 :: "byte list \<Rightarrow> 32 word" where
  "be32 bs = foldl (\<lambda>acc b. push_bit 8 acc OR ucast b) 0 bs"

text \<open>The message, the byte 0x80, zeros up to 56 modulo 64, the bit length in 8 bytes.\<close>

definition length_bytes :: "nat \<Rightarrow> byte list" where
  "length_bytes n =
     (let bits = (of_nat (8 * n) :: 64 word)
      in map (\<lambda>i. ucast (drop_bit (8 * (7 - i)) bits)) [0..<8])"

definition sha1_pad :: "byte list \<Rightarrow> byte list" where
  "sha1_pad msg =
     msg @ [0x80] @ replicate ((119 - length msg mod 64) mod 64) 0 @
     length_bytes (length msg)"

fun chunks :: "nat \<Rightarrow> 'a list \<Rightarrow> 'a list list" where
  "chunks n xs = (if n = 0 \<or> xs = [] then [] else take n xs # chunks n (drop n xs))"

declare chunks.simps [simp del]

type_synonym sha1_state = "32 word \<times> 32 word \<times> 32 word \<times> 32 word \<times> 32 word"

definition sha1_round :: "nat \<Rightarrow> 32 word \<Rightarrow> sha1_state \<Rightarrow> sha1_state" where
  "sha1_round i w st =
     (case st of (a, b, c, d, e) \<Rightarrow>
        (let f = (if i < 20 then (b AND c) OR (NOT b AND d)
                  else if i < 40 then b XOR c XOR d
                  else if i < 60 then (b AND c) OR (b AND d) OR (c AND d)
                  else b XOR c XOR d);
             k = (if i < 20 then 0x5A827999 else if i < 40 then 0x6ED9EBA1
                  else if i < 60 then 0x8F1BBCDC else 0xCA62C1D6)
         in (word_rotl 5 a + f + e + k + w, a, word_rotl 30 b, c, d)))"

text \<open>
  The eighty rounds of one block. The message schedule is kept as a window of sixteen
  words: the head is the word of the current round, and the word sixteen rounds ahead
  is appended (\<open>w[t] = rotl 1 (w[t-3] XOR w[t-8] XOR w[t-14] XOR w[t-16])\<close>).
\<close>

definition sha1_step :: "nat \<Rightarrow> 32 word list \<times> sha1_state \<Rightarrow> 32 word list \<times> sha1_state" where
  "sha1_step i ws =
     (case ws of (win, st) \<Rightarrow>
        (tl win @ [word_rotl 1 (win ! 13 XOR win ! 8 XOR win ! 2 XOR win ! 0)],
         sha1_round i (hd win) st))"

fun sha1_steps :: "nat \<Rightarrow> nat \<Rightarrow> 32 word list \<times> sha1_state
    \<Rightarrow> 32 word list \<times> sha1_state" where
  "sha1_steps 0 i ws = ws"
| "sha1_steps (Suc n) i ws = sha1_steps n (Suc i) (sha1_step i ws)"

definition sha1_block :: "sha1_state \<Rightarrow> byte list \<Rightarrow> sha1_state" where
  "sha1_block h blk =
     (case h of (h0, h1, h2, h3, h4) \<Rightarrow>
        (case snd (sha1_steps 80 0 (map be32 (chunks 4 blk), h)) of
           (a, b, c, d, e) \<Rightarrow> (h0 + a, h1 + b, h2 + c, h3 + d, h4 + e)))"

definition word_bytes :: "32 word \<Rightarrow> byte list" where
  "word_bytes w = [ucast (drop_bit 24 w), ucast (drop_bit 16 w), ucast (drop_bit 8 w), ucast w]"

definition sha1 :: "byte list \<Rightarrow> byte list" where
  "sha1 msg =
     (case foldl sha1_block (0x67452301, 0xEFCDAB89, 0x98BADCFE, 0x10325476, 0xC3D2E1F0)
             (chunks 64 (sha1_pad msg)) of
        (h0, h1, h2, h3, h4) \<Rightarrow>
          word_bytes h0 @ word_bytes h1 @ word_bytes h2 @ word_bytes h3 @ word_bytes h4)"

subsection \<open>The routines\<close>

text \<open>
  \<open>hexToBigInt\<close>, the same in both files: \<open>hex[2:]\<close> panics on a string shorter than
  two; the result of \<open>SetString\<close> replaces \<open>n\<close>, so a failed parse returns nil.
\<close>

definition hexToBigInt :: "string \<Rightarrow> panic + int option" where
  "hexToBigInt hex =
     (if length hex < 2 then Inl SliceBoundsOutOfRange else Inr (SetString16 (drop 2 hex)))"

text \<open>The loop of \<open>sortDecimalArray\<close>, started with \<open>min := deciamlArraies[0]\<close>.\<close>

fun min_loop :: "decimal \<Rightarrow> decimal list \<Rightarrow> decimal" where
  "min_loop m [] = m"
| "min_loop m (item # items) = min_loop (if LessThan item m then item else m) items"

text \<open>\<open>sortDecimalArray\<close> of client/service.go returns \<open>min.String()\<close>.\<close>

definition sortDecimalArray :: "decimal list \<Rightarrow> panic + string" where
  "sortDecimalArray deciamlArraies =
     (case deciamlArraies of
        [] \<Rightarrow> Inl IndexOutOfRange
      | d # ds \<Rightarrow> Inr (decimal_String (min_loop d deciamlArraies)))"

text \<open>\<open>sortDecimalArray\<close> of utils/util/util.go returns \<open>min.IntPart()\<close>.\<close>

definition sortDecimalArray_util :: "decimal list \<Rightarrow> panic + int" where
  "sortDecimalArray_util deciamlArraies =
     (case deciamlArraies of
        [] \<Rightarrow> Inl IndexOutOfRange
      | d # ds \<Rightarrow> Inr (IntPart (min_loop d deciamlArraies)))"

text \<open>
  The loop of \<open>getHashResult\<close> over \<open>net.Interfaces()\<close> (whose error is dropped, so a
  failure is the empty list).
\<close>

fun collect :: "interface list \<Rightarrow> decimal list \<Rightarrow> panic + decimal list" where
  "collect [] deciamlArraies = Inr deciamlArraies"
| "collect (ifc # rest) deciamlArraies =
     (if HardwareAddr_String (HardwareAddr ifc) = [] then collect rest deciamlArraies
      else case hexToBigInt (strip_colons (HardwareAddr_String (HardwareAddr ifc))) of
             Inl p \<Rightarrow> Inl p
           | Inr n \<Rightarrow>
               (case NewFromBigInt n 1 of
                  Inl p \<Rightarrow> Inl p
                | Inr d \<Rightarrow> collect rest (deciamlArraies @ [d])))"

text \<open>\<open>fmt.Sprintf("%x", sum)[20:]\<close> of the SHA-1 of a string.\<close>

definition hash_tail :: "string \<Rightarrow> panic + string" where
  "hash_tail s =
     (let h = hex_encode (sha1 (bytes_of s))
      in if length h < 20 then Inl SliceBoundsOutOfRange else Inr (drop 20 h))"

definition getHashResult :: "interface list \<Rightarrow> panic + string" where
  "getHashResult interfaces =
     (case collect interfaces [] of
        Inl p \<Rightarrow> Inl p
      | Inr deciamlArraies \<Rightarrow>
          (case sortDecimalArray deciamlArraies of
             Inl p \<Rightarrow> Inl p
           | Inr s \<Rightarrow> hash_tail s))"

text \<open>
  \<open>GetUniqueId\<close> of utils/util/util.go also takes the combined output of
  \<open>ls /sys/devices/virtual/net/\<close>. \<open>strings.Contains\<close> and \<open>strings.Split(s, "\n")\<close>:
\<close>

fun strings_Contains :: "string \<Rightarrow> string \<Rightarrow> bool" where
  "strings_Contains [] sub = (sub = [])"
| "strings_Contains (c # cs) sub =
     (take (length sub) (c # cs) = sub \<or> strings_Contains cs sub)"

fun split_loop :: "string \<Rightarrow> string \<Rightarrow> string list" where
  "split_loop cur [] = [cur]"
| "split_loop cur (c # cs) =
     (if c = CHR 0x0A then cur # split_loop [] cs else split_loop (cur @ [c]) cs)"

definition virtualNetInterfaces :: "string \<Rightarrow> string list" where
  "virtualNetInterfaces out =
     (if strings_Contains out ''No such file or directory'' then []
      else filter (\<lambda>temp. temp \<noteq> []) (split_loop [] out))"

text \<open>
  The inner loop over the virtual names, for one interface: whether its address is
  appended to \<open>physicalNetInterfaces\<close>. The append sits inside the loop body, at the
  last index.
\<close>

fun inner_loop :: "string \<Rightarrow> bool \<Rightarrow> string list \<Rightarrow> bool" where
  "inner_loop name isVirtual [] = False"
| "inner_loop name isVirtual [virtual] = (\<not> (isVirtual \<or> name = virtual))"
| "inner_loop name isVirtual (virtual # rest) =
     inner_loop name (isVirtual \<or> name = virtual) rest"

fun physicalNetInterfaces :: "string list \<Rightarrow> interface list \<Rightarrow> string list" where
  "physicalNetInterfaces virtuals [] = []"
| "physicalNetInterfaces virtuals (ifc # rest) =
     (if HardwareAddr_String (HardwareAddr ifc) = []
      then physicalNetInterfaces virtuals rest
      else (if inner_loop (Name ifc) False virtuals
            then [HardwareAddr_String (HardwareAddr ifc)] else []) @
           physicalNetInterfaces virtuals rest)"

text \<open>The loop that fills \<open>keys\<close> and the map \<open>deciamlArraies\<close> from \<open>IntPart\<close> to address.\<close>

fun keys_loop :: "string list \<Rightarrow> decimal list \<times> (int \<rightharpoonup> string)
    \<Rightarrow> panic + decimal list \<times> (int \<rightharpoonup> string)" where
  "keys_loop [] acc = Inr acc"
| "keys_loop (physical # rest) acc =
     (case hexToBigInt (strip_colons physical) of
        Inl p \<Rightarrow> Inl p
      | Inr n \<Rightarrow>
          (case NewFromBigInt n 1 of
             Inl p \<Rightarrow> Inl p
           | Inr d \<Rightarrow> keys_loop rest (fst acc @ [d], (snd acc)(IntPart d \<mapsto> physical))))"

definition GetUniqueId :: "interface list \<Rightarrow> string \<Rightarrow> panic + string \<times> string" where
  "GetUniqueId interfaces out =
     (case keys_loop (physicalNetInterfaces (virtualNetInterfaces out) interfaces)
             ([], Map.empty) of
        Inl p \<Rightarrow> Inl p
      | Inr r \<Rightarrow>
          (case sortDecimalArray_util (fst r) of
             Inl p \<Rightarrow> Inl p
           | Inr k \<Rightarrow>
               (case hash_tail (int_String k) of
                  Inl p \<Rightarrow> Inl p
                | Inr uid \<Rightarrow> Inr (uid, case snd r k of None \<Rightarrow> [] | Some physical \<Rightarrow> physical))))"

subsection \<open>Notions used to state what the routines compute\<close>

text \<open>The octets of an address read as one big-endian number.\<close>

definition be_val :: "byte list \<Rightarrow> nat" where
  "be_val bs = foldl (\<lambda>acc b. 256 * acc + unat b) 0 bs"

text \<open>The whole address as an integer, and the address without its first octet.\<close>

definition full_value :: "byte list \<Rightarrow> int" where
  "full_value a = int (be_val a)"

definition tail_value :: "byte list \<Rightarrow> int" where
  "tail_value a = int (be_val (tl a))"

definition dec_of :: "byte list \<Rightarrow> decimal" where
  "dec_of a = \<lparr>d_value = tail_value a, d_exp = 1\<rparr>"

text \<open>The last 20 hexadecimal characters of the SHA-1 of a string.\<close>

definition uid_of :: "string \<Rightarrow> string" where
  "uid_of s = drop 20 (hex_encode (sha1 (bytes_of s)))"

text \<open>The non-empty hardware addresses of a host, in the order of its interfaces.\<close>

definition addressed :: "interface list \<Rightarrow> byte list list" where
  "addressed ifs = filter (\<lambda>a. a \<noteq> []) (map HardwareAddr ifs)"

text \<open>
  The interfaces \<open>GetUniqueId\<close> keeps: those with an address whose name is not in the
  listing of virtual interfaces, provided that listing is not empty.
\<close>

definition is_physical :: "string list \<Rightarrow> interface \<Rightarrow> bool" where
  "is_physical virtuals ifc \<longleftrightarrow>
     HardwareAddr ifc \<noteq> [] \<and> virtuals \<noteq> [] \<and> Name ifc \<notin> set virtuals"

definition physical :: "string \<Rightarrow> interface list \<Rightarrow> byte list list" where
  "physical out ifs = map HardwareAddr (filter (is_physical (virtualNetInterfaces out)) ifs)"

text \<open>Two interfaces that differ at most in the first octet of their address.\<close>

definition same_but_first_octet :: "interface \<Rightarrow> interface \<Rightarrow> bool" where
  "same_but_first_octet i j \<longleftrightarrow>
     Name i = Name j \<and> length (HardwareAddr i) = length (HardwareAddr j) \<and>
     tl (HardwareAddr i) = tl (HardwareAddr j)"

text \<open>
  The string that is hashed according to the spec's words, for comparison with the
  code: "For each, strip separator characters, parse as hexadecimal big integer. Select
  the numerically smallest ... Compute SHA-1 of its decimal string representation".
\<close>

definition spec_hashed_string :: "interface list \<Rightarrow> string" where
  "spec_hashed_string ifs = int_String (Min (set (map full_value (addressed ifs))))"

text \<open>Interfaces and listings used to exercise the routines.\<close>

definition lo :: interface where
  "lo = \<lparr>Name = ''lo'', HardwareAddr = []\<rparr>"

definition eth0 :: interface where
  "eth0 = \<lparr>Name = ''eth0'', HardwareAddr = [0x02, 0x00, 0x00, 0x00, 0x00, 0x05]\<rparr>"

definition eth1 :: interface where
  "eth1 = \<lparr>Name = ''eth1'', HardwareAddr = [0x0A, 0x00, 0x00, 0x00, 0x00, 0x03]\<rparr>"

definition eth0_other :: interface where
  "eth0_other = \<lparr>Name = ''eth0'', HardwareAddr = [0xAA, 0x00, 0x00, 0x00, 0x00, 0x05]\<rparr>"

definition eth2 :: interface where
  "eth2 = \<lparr>Name = ''eth2'', HardwareAddr = [0x00, 0x00, 0x00, 0x00, 0x00, 0x07]\<rparr>"

definition arc0 :: interface where
  "arc0 = \<lparr>Name = ''arc0'', HardwareAddr = [0x2A]\<rparr>"

definition ls_failed :: string where
  "ls_failed = ''ls: /sys/devices/virtual/net/: No such file or directory''"

definition ls_listing :: string where
  "ls_listing = ''docker0'' @ [CHR 0x0A] @ ''lo'' @ [CHR 0x0A]"

section \<open>Properties\<close>

lemma wrap64_id: "in_int64 x \<Longrightarrow> wrap64 x = x"
  by (simp add: wrap64_def in_int64_def)

subsection \<open>ControlManager\<close>

text \<open>
  Claim C5. \<open>Add rid ctl\<close> returns what was stored under \<open>rid\<close> (nil when nothing was),
  stores \<open>ctl\<close> under \<open>rid\<close>, and, when a control \<open>old\<close> was stored, has invoked
  \<open>Replaced\<close> on it: the object behind \<open>old\<close> has an empty run id and its shutdown is
  started; without a previous entry no object changes. \<open>Del rid ctl\<close> removes the entry
  exactly when the stored pointer is \<open>ctl\<close> and changes nothing otherwise. So when
  \<open>ctl\<close> is added, then evicted by \<open>succ\<close>, the late \<open>Del\<close> of \<open>ctl\<close> leaves
  \<open>succ\<close> in the table.
\<close>

theorem ControlManager_Add_Del:
  "fst (Add rid ctl (cm, h)) = ctlsByRunId cm rid \<and>
   ctlsByRunId (fst (snd (Add rid ctl (cm, h)))) = (ctlsByRunId cm)(rid \<mapsto> ctl) \<and>
   (\<forall>old. ctlsByRunId cm rid = Some old \<longrightarrow>
      snd (snd (Add rid ctl (cm, h))) = h(old := Replaced (h old) (h ctl)) \<and>
      runId (snd (snd (Add rid ctl (cm, h))) old) = [] \<and>
      allShutdownStarted (snd (snd (Add rid ctl (cm, h))) old)) \<and>
   (ctlsByRunId cm rid = None \<longrightarrow> snd (snd (Add rid ctl (cm, h))) = h) \<and>
   (ctlsByRunId cm rid = Some ctl \<longrightarrow>
      ctlsByRunId (Del rid ctl cm) = (ctlsByRunId cm)(rid := None)) \<and>
   (ctlsByRunId cm rid \<noteq> Some ctl \<longrightarrow> Del rid ctl cm = cm) \<and>
   (\<forall>succ. succ \<noteq> ctl \<longrightarrow>
      GetById rid
        (Del rid ctl (fst (snd (Add rid succ (snd (Add rid ctl (cm, h))))))) = Some succ)"
  by (auto simp: Add_def Del_def GetById_def Let_def Replaced_def split: option.splits)

theorem ControlManager_Add_Del_witness:
  "ctlsByRunId cm0 ''r1'' = Some 1 \<and> (2::nat) \<noteq> 1 \<and>
   fst (Add ''r1'' 2 (cm0, \<lambda>_. ctl0)) = Some 1 \<and>
   runId (snd (snd (Add ''r1'' 2 (cm0, \<lambda>_. ctl0))) 1) = [] \<and>
   allShutdownStarted (snd (snd (Add ''r1'' 2 (cm0, \<lambda>_. ctl0))) 1) \<and>
   ctlsByRunId (Del ''r1'' 1 cm0) = (ctlsByRunId cm0)(''r1'' := None) \<and>
   Del ''r1'' 2 cm0 = cm0 \<and>
   ctlsByRunId cm0 ''r2'' = None \<and>
   snd (snd (Add ''r2'' 2 (cm0, \<lambda>_. ctl0))) = (\<lambda>_. ctl0) \<and>
   GetById ''r1''
     (Del ''r1'' 1 (fst (snd (Add ''r1'' 2 (snd (Add ''r1'' 1 (cm0, \<lambda>_. ctl0))))))) = Some 2"
  using ControlManager_Add_Del [of "''r1''" 2 cm0 "\<lambda>_. ctl0"]
    ControlManager_Add_Del [of "''r1''" 1 cm0 "\<lambda>_. ctl0"]
    ControlManager_Add_Del [of "''r2''" 2 cm0 "\<lambda>_. ctl0"]
  by (auto simp: cm0_def Replaced_def)

subsection \<open>The work-connection pool\<close>

lemma NewControl_pool_sized:
  "NewControl loginMsg cfg = Some ctl \<Longrightarrow> in_int64 (poolCount ctl + 10) \<Longrightarrow>
   pool_sized ctl \<and> \<not> ch_closed (workConnCh ctl)"
  by (auto simp: NewControl_def pool_sized_def make_chan_def Let_def wrap64_id split: if_splits)

lemma RegisterWorkConn_pool_sized:
  "pool_sized ctl \<Longrightarrow> pool_sized (snd (RegisterWorkConn c ctl))"
  by (auto simp: RegisterWorkConn_def pool_sized_def chan_send_def)

text \<open>
  Claim C2, as amended. \<open>RegisterWorkConn\<close> always returns (it is a total function with
  no blocked outcome). On a pool that has not been closed and has the capacity
  \<open>poolCount + 10\<close> that \<open>NewControl\<close> gives it: when it already holds
  \<open>poolCount + 10\<close> connections the call returns the error
  "work connection pool is full, discarding" and the control is unchanged; otherwise the
  connection is appended to the pool and nil is returned.
\<close>

theorem RegisterWorkConn_open_pool:
  assumes "pool_sized ctl" and "\<not> ch_closed (workConnCh ctl)"
  shows "(int (length (ch_buf (workConnCh ctl))) = poolCount ctl + 10 \<longrightarrow>
            RegisterWorkConn c ctl = (Some ''work connection pool is full, discarding'', ctl)) \<and>
         (int (length (ch_buf (workConnCh ctl))) \<noteq> poolCount ctl + 10 \<longrightarrow>
            RegisterWorkConn c ctl =
              (None, ctl\<lparr>workConnCh :=
                 (workConnCh ctl)\<lparr>ch_buf := ch_buf (workConnCh ctl) @ [c]\<rparr>\<rparr>))"
  using assms by (auto simp: RegisterWorkConn_def pool_sized_def chan_send_def)

theorem RegisterWorkConn_open_pool_witness:
  "pool_sized ctl0 \<and> \<not> ch_closed (workConnCh ctl0) \<and> pool_sized full_ctl \<and>
   \<not> ch_closed (workConnCh full_ctl) \<and>
   RegisterWorkConn 11 full_ctl = (Some ''work connection pool is full, discarding'', full_ctl) \<and>
   RegisterWorkConn 11 ctl0 =
     (None, ctl0\<lparr>workConnCh := \<lparr>ch_buf = [11], ch_cap = 10, ch_closed = False\<rparr>\<rparr>)"
  using RegisterWorkConn_open_pool [of ctl0 11] RegisterWorkConn_open_pool [of full_ctl 11]
  by (simp add: ctl0_def full_ctl_def pool_sized_def make_chan_def)

text \<open>
  The claim as stated, for every state of the pool, fails on a closed pool: the pool of
  \<open>closed_pool_ctl\<close> holds fewer than \<open>poolCount + 10\<close> connections, the call returns
  nil, and the connection is not in the pool.
\<close>

theorem RegisterWorkConn_closed_pool_counterexample:
  "pool_sized closed_pool_ctl \<and>
   int (length (ch_buf (workConnCh closed_pool_ctl))) \<noteq> poolCount closed_pool_ctl + 10 \<and>
   RegisterWorkConn 11 closed_pool_ctl = (None, closed_pool_ctl) \<and>
   ch_buf (workConnCh (snd (RegisterWorkConn 11 closed_pool_ctl))) = []"
  by (simp add: closed_pool_ctl_def ctl0_def pool_sized_def make_chan_def RegisterWorkConn_def
      chan_send_def)

lemma NewControl_sends_go_through:
  "NewControl loginMsg cfg = Some ctl \<Longrightarrow> sends_go_through env ctl"
  by (auto simp: NewControl_def sends_go_through_def make_chan_def Let_def split: if_splits)














subsection \<open>Proxies of one client\<close>

lemma wrap64_sub_left: "wrap64 (wrap64 a - b) = wrap64 (a - b)"
proof -
  have "(((a + 2 ^ 63) mod 2 ^ 64 - 2 ^ 63 - b + 2 ^ 63) mod 2 ^ 64 :: int)
      = ((a + 2 ^ 63) mod 2 ^ 64 - b) mod 2 ^ 64" by simp
  also have "\<dots> = (a + 2 ^ 63 - b) mod 2 ^ 64" by (rule mod_diff_left_eq)
  also have "\<dots> = (a - b + 2 ^ 63) mod 2 ^ 64" by (simp add: algebra_simps)
  finally show ?thesis by (simp add: wrap64_def)
qed

lemma go_add_sub: "in_int64 p \<Longrightarrow> go_sub (go_add p u) u = p"
  by (simp add: go_add_def go_sub_def wrap64_sub_left wrap64_id)

lemma go_add_exact: "in_int64 (a + b) \<Longrightarrow> go_add a b = a + b"
  by (simp add: go_add_def wrap64_id)

lemma RegisterProxy_accepts:
  assumes "RegisterProxy env m s = (Inr addr, s1)"
  obtains conf pxy where
    "NewProxyConfFromMsg env m (serverCfg (sctl s)) = Inr conf"
    "NewProxy env (runId (sctl s)) (poolCount (sctl s)) conf (serverCfg (sctl s)) = Inr pxy"
    "Run env pxy = Inr addr"
    "pxyManager s (ProxyName m) = None"
    "proxies (sctl s1) = (proxies (sctl s))(GetName pxy \<mapsto> pxy)"
    "portsUsedNum (sctl s1) = (if MaxPortsPerClient (serverCfg (sctl s)) > 0
        then go_add (portsUsedNum (sctl s)) (GetUsedPortsNum pxy) else portsUsedNum (sctl s))"
    "serverCfg (sctl s1) = serverCfg (sctl s)"
  using assms
  by (auto simp: RegisterProxy_def Let_def pm_Add_def release_ports_def
      split: sum.splits if_splits option.splits)

text \<open>
  Claim C3. Let \<open>RegisterProxy\<close> accept a \<open>NewProxy\<close> message whose name is not in the
  control's \<open>proxies\<close>, the proxy built for the message carrying the message's name.
  Then \<open>CloseProxy\<close> for that name brings \<open>proxies\<close> and \<open>portsUsedNum\<close> back to
  their values before \<open>RegisterProxy\<close>.
\<close>

theorem RegisterProxy_CloseProxy_roundtrip:
  assumes acc: "RegisterProxy env m s = (Inr addr, s1)"
    and fresh: "proxies (sctl s) (ProxyName m) = None"
    and named: "\<forall>conf pxy. NewProxyConfFromMsg env m (serverCfg (sctl s)) = Inr conf \<longrightarrow>
        NewProxy env (runId (sctl s)) (poolCount (sctl s)) conf (serverCfg (sctl s)) = Inr pxy \<longrightarrow>
        GetName pxy = ProxyName m"
    and rng: "in_int64 (portsUsedNum (sctl s))"
  shows "proxies (sctl (CloseProxy (ProxyName m) s1)) = proxies (sctl s) \<and>
         portsUsedNum (sctl (CloseProxy (ProxyName m) s1)) = portsUsedNum (sctl s)"
proof -
  from acc obtain conf pxy where
    c: "NewProxyConfFromMsg env m (serverCfg (sctl s)) = Inr conf" and
    p: "NewProxy env (runId (sctl s)) (poolCount (sctl s)) conf (serverCfg (sctl s)) = Inr pxy" and
    px: "proxies (sctl s1) = (proxies (sctl s))(GetName pxy \<mapsto> pxy)" and
    pu: "portsUsedNum (sctl s1) = (if MaxPortsPerClient (serverCfg (sctl s)) > 0
        then go_add (portsUsedNum (sctl s)) (GetUsedPortsNum pxy) else portsUsedNum (sctl s))" and
    cf: "serverCfg (sctl s1) = serverCfg (sctl s)"
    by (rule RegisterProxy_accepts)
  from named c p have n: "GetName pxy = ProxyName m" by blast
  have look: "proxies (sctl s1) (ProxyName m) = Some pxy" by (simp add: px n)
  have "proxies (sctl (CloseProxy (ProxyName m) s1)) = (proxies (sctl s1))(ProxyName m := None)"
    by (simp add: CloseProxy_def look Let_def)
  also have "\<dots> = proxies (sctl s)" using fresh by (simp add: px n fun_upd_idem)
  finally have A: "proxies (sctl (CloseProxy (ProxyName m) s1)) = proxies (sctl s)" .
  have B: "portsUsedNum (sctl (CloseProxy (ProxyName m) s1)) = portsUsedNum (sctl s)"
    using rng by (simp add: CloseProxy_def look Let_def cf pu go_add_sub)
  from A B show ?thesis by simp
qed

text \<open>
  Claim C4. With \<open>MaxPortsPerClient > 0\<close>, \<open>RegisterProxy\<close> compares
  \<open>portsUsedNum + pxy.GetUsedPortsNum()\<close> (Go's sum, which is the exact sum whenever
  that is a 64-bit value) with \<open>MaxPortsPerClient\<close>. When the sum is larger, the call
  returns the error "exceed the max_ports_per_client" and nothing changes. Otherwise the
  ports are reserved: on success \<open>portsUsedNum\<close> is the sum; when \<open>Run\<close> fails, or
  when \<open>Run\<close> succeeds and the registration with the \<open>ProxyManager\<close> fails (then the
  proxy is also closed), the error is returned and \<open>portsUsedNum\<close> is back at its
  prior value.
\<close>

theorem RegisterProxy_port_quota:
  assumes mx: "MaxPortsPerClient (serverCfg (sctl s)) > 0"
    and rng: "in_int64 (portsUsedNum (sctl s))"
    and c: "NewProxyConfFromMsg env m (serverCfg (sctl s)) = Inr conf"
    and p: "NewProxy env (runId (sctl s)) (poolCount (sctl s)) conf (serverCfg (sctl s)) = Inr pxy"
  shows "(go_add (portsUsedNum (sctl s)) (GetUsedPortsNum pxy) > MaxPortsPerClient (serverCfg (sctl s)) \<longrightarrow>
            RegisterProxy env m s = (Inl ''exceed the max_ports_per_client'', s)) \<and>
         (go_add (portsUsedNum (sctl s)) (GetUsedPortsNum pxy) \<le> MaxPortsPerClient (serverCfg (sctl s)) \<longrightarrow>
            (\<forall>err. Run env pxy = Inl err \<longrightarrow>
               fst (RegisterProxy env m s) = Inl err \<and>
               portsUsedNum (sctl (snd (RegisterProxy env m s))) = portsUsedNum (sctl s)) \<and>
            (\<forall>addr err. Run env pxy = Inr addr \<and>
                 pm_Add (ProxyName m) pxy (pxyManager s) = Inl err \<longrightarrow>
               fst (RegisterProxy env m s) = Inl err \<and>
               portsUsedNum (sctl (snd (RegisterProxy env m s))) = portsUsedNum (sctl s) \<and>
               pxyClosed (snd (RegisterProxy env m s)) = pxyClosed s @ [pxy]) \<and>
            (\<forall>addr pm. Run env pxy = Inr addr \<and>
                 pm_Add (ProxyName m) pxy (pxyManager s) = Inr pm \<longrightarrow>
               fst (RegisterProxy env m s) = Inr addr \<and>
               portsUsedNum (sctl (snd (RegisterProxy env m s))) =
                 go_add (portsUsedNum (sctl s)) (GetUsedPortsNum pxy))) \<and>
         (in_int64 (portsUsedNum (sctl s) + GetUsedPortsNum pxy) \<longrightarrow>
            go_add (portsUsedNum (sctl s)) (GetUsedPortsNum pxy) =
              portsUsedNum (sctl s) + GetUsedPortsNum pxy)"
  using mx rng
  by (auto simp: RegisterProxy_def Let_def c p release_ports_def go_add_sub go_add_exact)

lemmas ex_defs = RegisterProxy_def env0_def web_msg_def big_msg_def norun_msg_def taken_msg_def
  st0_def ctl0_def cfg0_def go_add_def go_sub_def wrap64_def pm_Add_def Let_def in_int64_def
  release_ports_def

theorem RegisterProxy_CloseProxy_roundtrip_witness:
  "fst (RegisterProxy env0 web_msg st0) = Inr '':6000'' \<and>
   proxies (sctl st0) (ProxyName web_msg) = None \<and>
   in_int64 (portsUsedNum (sctl st0)) \<and>
   portsUsedNum (sctl (snd (RegisterProxy env0 web_msg st0))) = 2 \<and>
   proxies (sctl (snd (RegisterProxy env0 web_msg st0))) ''web'' =
     Some \<lparr>GetName = ''web'', GetUsedPortsNum = 1\<rparr> \<and>
   proxies (sctl (CloseProxy (ProxyName web_msg) (snd (RegisterProxy env0 web_msg st0)))) =
     proxies (sctl st0) \<and>
   portsUsedNum (sctl (CloseProxy (ProxyName web_msg) (snd (RegisterProxy env0 web_msg st0)))) = 1"
proof -
  have f: "fst (RegisterProxy env0 web_msg st0) = Inr '':6000''"
    by (simp add: ex_defs)
  have acc: "RegisterProxy env0 web_msg st0 = (Inr '':6000'', snd (RegisterProxy env0 web_msg st0))"
    by (simp add: prod_eq_iff f)
  have fresh: "proxies (sctl st0) (ProxyName web_msg) = None"
    by (simp add: ex_defs)
  have named: "\<forall>conf pxy. NewProxyConfFromMsg env0 web_msg (serverCfg (sctl st0)) = Inr conf \<longrightarrow>
        NewProxy env0 (runId (sctl st0)) (poolCount (sctl st0)) conf (serverCfg (sctl st0)) = Inr pxy \<longrightarrow>
        GetName pxy = ProxyName web_msg"
    by (auto simp: ex_defs)
  have rng: "in_int64 (portsUsedNum (sctl st0))"
    by (simp add: ex_defs)
  have more: "portsUsedNum (sctl (snd (RegisterProxy env0 web_msg st0))) = 2 \<and>
     proxies (sctl (snd (RegisterProxy env0 web_msg st0))) ''web'' =
     Some \<lparr>GetName = ''web'', GetUsedPortsNum = 1\<rparr> \<and> portsUsedNum (sctl st0) = 1"
    by (simp add: ex_defs)
  show ?thesis
    using RegisterProxy_CloseProxy_roundtrip [OF acc fresh named rng] f fresh rng more by simp
qed

theorem RegisterProxy_port_quota_witness:
  "MaxPortsPerClient (serverCfg (sctl st0)) = 2 \<and> portsUsedNum (sctl st0) = 1 \<and>
   RegisterProxy env0 big_msg st0 = (Inl ''exceed the max_ports_per_client'', st0) \<and>
   fst (RegisterProxy env0 norun_msg st0) = Inl ''listen failed'' \<and>
   portsUsedNum (sctl (snd (RegisterProxy env0 norun_msg st0))) = 1 \<and>
   fst (RegisterProxy env0 taken_msg st0) = Inl ''proxy name [taken] is already in use'' \<and>
   portsUsedNum (sctl (snd (RegisterProxy env0 taken_msg st0))) = 1 \<and>
   pxyClosed (snd (RegisterProxy env0 taken_msg st0)) = [\<lparr>GetName = ''taken'', GetUsedPortsNum = 1\<rparr>] \<and>
   fst (RegisterProxy env0 web_msg st0) = Inr '':6000'' \<and>
   portsUsedNum (sctl (snd (RegisterProxy env0 web_msg st0))) = 2"
proof -
  have mx: "MaxPortsPerClient (serverCfg (sctl st0)) > 0" and rng: "in_int64 (portsUsedNum (sctl st0))"
    and vals: "MaxPortsPerClient (serverCfg (sctl st0)) = 2" "portsUsedNum (sctl st0) = 1" "pxyClosed st0 = []"
    by (simp_all add: ex_defs)
  have c: "\<And>m. NewProxyConfFromMsg env0 m (serverCfg (sctl st0)) = Inr (ProxyName m)"
    by (simp add: env0_def)
  have p: "\<And>n. NewProxy env0 (runId (sctl st0)) (poolCount (sctl st0)) n (serverCfg (sctl st0)) =
     Inr \<lparr>GetName = n, GetUsedPortsNum = (if n = ''big'' then 3 else 1)\<rparr>"
    by (simp add: env0_def)
  have runs: "Run env0 \<lparr>GetName = ''norun'', GetUsedPortsNum = 1\<rparr> = Inl ''listen failed''"
     "Run env0 \<lparr>GetName = ''taken'', GetUsedPortsNum = 1\<rparr> = Inr '':6000''"
     "Run env0 \<lparr>GetName = ''web'', GetUsedPortsNum = 1\<rparr> = Inr '':6000''"
    by (simp_all add: env0_def)
  have adds: "pm_Add ''taken'' \<lparr>GetName = ''taken'', GetUsedPortsNum = 1\<rparr> (pxyManager st0) = Inl ''proxy name [taken] is already in use''"
     "pm_Add ''web'' \<lparr>GetName = ''web'', GetUsedPortsNum = 1\<rparr> (pxyManager st0) = Inr ((pxyManager st0)(''web'' \<mapsto> \<lparr>GetName = ''web'', GetUsedPortsNum = 1\<rparr>))"
    by (simp_all add: pm_Add_def st0_def)
  have sums: "go_add 1 3 = 4" "go_add 1 1 = 2"
    by (simp_all add: go_add_def wrap64_def)
  show ?thesis
    using RegisterProxy_port_quota [OF mx rng c [of big_msg] p [of "ProxyName big_msg"]]
      RegisterProxy_port_quota [OF mx rng c [of norun_msg] p [of "ProxyName norun_msg"]]
      RegisterProxy_port_quota [OF mx rng c [of taken_msg] p [of "ProxyName taken_msg"]]
      RegisterProxy_port_quota [OF mx rng c [of web_msg] p [of "ProxyName web_msg"]]
    by (simp add: vals runs adds sums big_msg_def norun_msg_def taken_msg_def web_msg_def)
qed

subsection \<open>The session supervisor\<close>
















subsection \<open>Unique id of a host\<close>

lemma hexDigit_cases:
  "n < 16 \<Longrightarrow> n = 0 \<or> n = 1 \<or> n = 2 \<or> n = 3 \<or> n = 4 \<or> n = 5 \<or> n = 6 \<or> n = 7 \<or> n = 8 \<or>
     n = 9 \<or> n = 10 \<or> n = 11 \<or> n = 12 \<or> n = 13 \<or> n = 14 \<or> n = (15::nat)"
  by arith

lemma digit_val_hexDigit: "n < 16 \<Longrightarrow> digit_val (hexDigit n) = Some n"
  using hexDigit_cases [of n] by (auto simp: digit_val_def hexDigit_def Let_def)


lemma hexDigit_not_sep: "n < 16 \<Longrightarrow> hexDigit n \<noteq> CHR '':'' \<and> hexDigit n \<noteq> CHR ''-'' \<and> hexDigit n \<noteq> CHR ''+''"
  using hexDigit_cases [of n] by (auto simp: hexDigit_def)

lemma hi_nibble: "unat (drop_bit 4 (b::byte)) = unat b div 16"
  by (simp add: drop_bit_eq_div unat_div)

lemma lo_nibble: "unat ((b::byte) AND 0xF) = unat b mod 16"
proof -
  have "(b AND 0xF) = take_bit 4 b"
    by (simp add: take_bit_eq_mask mask_eq_exp_minus_1)
  then show ?thesis
    by (simp add: take_bit_eq_mod unat_mod)
qed

lemma nibbles_lt: "unat (b::byte) div 16 < 16" "unat (b::byte) mod 16 < 16"
proof -
  have "unat b < 2 ^ LENGTH(8)" by (rule unsigned_less)
  then have "unat b < 256" by simp
  then show "unat b div 16 < 16" by arith
  show "unat b mod 16 < 16" by simp
qed

lemma scan_hex_byte: "scan_hex acc (byte_hex b @ rest) = scan_hex (256 * acc + unat b) rest"
proof -
  have e: "16 * (16 * acc + unat b div 16) + unat b mod 16 = 256 * acc + unat b"
    by arith
  have "scan_hex acc (byte_hex b @ rest) =
      scan_hex (16 * (16 * acc + unat b div 16) + unat b mod 16) rest"
    by (simp add: byte_hex_def hi_nibble lo_nibble digit_val_hexDigit nibbles_lt del: mult_Suc_right)
  then show ?thesis
    by (simp only: e)
qed

lemma scan_hex_encode:
  "scan_hex acc (hex_encode bs) = Some (foldl (\<lambda>acc b. 256 * acc + unat b) acc bs)"
proof (induction bs arbitrary: acc)
  case Nil
  then show ?case by (simp add: hex_encode_def)
next
  case (Cons b bs)
  have "hex_encode (b # bs) = byte_hex b @ hex_encode bs" by (simp add: hex_encode_def)
  then show ?case using Cons.IH by (simp add: scan_hex_byte)
qed

lemma byte_hex_no_colon: "filter (\<lambda>c. c \<noteq> CHR '':'') (byte_hex b) = byte_hex b"
  by (simp add: byte_hex_def hi_nibble lo_nibble hexDigit_not_sep nibbles_lt)

lemma strip_String_loop: "strip_colons (String_loop i bs) = hex_encode bs"
  by (induction bs arbitrary: i) (simp_all add: strip_colons_def hex_encode_def byte_hex_no_colon)

lemma strip_String: "strip_colons (HardwareAddr_String a) = hex_encode a"
proof (cases a)
  case Nil
  then show ?thesis by (simp add: HardwareAddr_String_def strip_colons_def hex_encode_def)
next
  case (Cons b bs)
  have "strip_colons (String_loop 0 (b # bs)) = hex_encode (b # bs)"
    by (rule strip_String_loop)
  then show ?thesis using Cons by (simp add: HardwareAddr_String_def)
qed

lemma String_empty: "HardwareAddr_String a = [] \<longleftrightarrow> a = []"
  by (cases a) (simp_all add: HardwareAddr_String_def byte_hex_def)

lemma hex_encode_Cons: "hex_encode (b # bs) = hexDigit (unat b div 16) # hexDigit (unat b mod 16) # hex_encode bs"
  by (simp add: hex_encode_def byte_hex_def hi_nibble lo_nibble)

lemma SetString16_hex_encode:
  "SetString16 (hex_encode bs) = (if bs = [] then None else Some (int (be_val bs)))"
proof (cases bs)
  case Nil
  then show ?thesis by (simp add: SetString16_def hex_encode_def)
next
  case (Cons b rest)
  have ne: "hex_encode (b # rest) \<noteq> []" by (simp add: hex_encode_Cons)
  have sign: "hexDigit (unat b div 16) \<noteq> CHR ''-''" "hexDigit (unat b div 16) \<noteq> CHR ''+''"
    using hexDigit_not_sep [OF nibbles_lt(1), of b] by simp_all
  have "SetString16 (hex_encode (b # rest)) = map_option int (scan_number (hex_encode (b # rest)))"
    using sign by (simp add: SetString16_def hex_encode_Cons)
  also have "\<dots> = Some (int (be_val (b # rest)))"
    using ne by (simp add: scan_number_def scan_hex_encode be_val_def)
  finally show ?thesis using Cons by simp
qed

lemma hexToBigInt_hex_encode:
  "a \<noteq> [] \<Longrightarrow> hexToBigInt (hex_encode a) =
     Inr (if tl a = [] then None else Some (int (be_val (tl a))))"
  by (cases a) (simp_all add: hexToBigInt_def hex_encode_Cons SetString16_hex_encode)

lemma sha1_length: "length (sha1 msg) = 20"
  by (simp add: sha1_def word_bytes_def split: prod.splits)

lemma hex_encode_length: "length (hex_encode bs) = 2 * length bs"
  by (induction bs) (simp_all add: hex_encode_def byte_hex_def)


lemma hash_tail_eq: "hash_tail s = Inr (uid_of s)"
  by (simp add: hash_tail_def uid_of_def Let_def hex_encode_length sha1_length)



lemma hexToBigInt_address:
  "a \<noteq> [] \<Longrightarrow>
   hexToBigInt (strip_colons (HardwareAddr_String a)) =
     Inr (if length a = 1 then None else Some (tail_value a))"
  by (cases a) (simp_all add: strip_String hexToBigInt_hex_encode tail_value_def)

lemma collect_eq:
  "collect ifs acc =
     (if \<exists>i\<in>set ifs. length (HardwareAddr i) = 1 then Inl NilPointerDereference
      else Inr (acc @ map dec_of (filter (\<lambda>a. a \<noteq> []) (map HardwareAddr ifs))))"
proof (induction ifs arbitrary: acc)
  case Nil
  then show ?case by simp
next
  case (Cons i ifs)
  show ?case
  proof (cases "HardwareAddr i = []")
    case True
    then show ?thesis using Cons.IH [of acc] by (simp add: String_empty)
  next
    case False
    then show ?thesis
      using Cons.IH [of "acc @ [dec_of (HardwareAddr i)]"]
      by (simp add: String_empty hexToBigInt_address NewFromBigInt_def dec_of_def)
  qed
qed

lemma LessThan_same_exp: "d_exp a = d_exp b \<Longrightarrow> LessThan a b = (d_value a < d_value b)"
  by (simp add: LessThan_def)

lemma min_loop_Min:
  "\<forall>d\<in>set (m # ds). d_exp d = e \<Longrightarrow>
   min_loop m ds = \<lparr>d_value = Min (d_value ` set (m # ds)), d_exp = e\<rparr>"
proof (induction ds arbitrary: m)
  case Nil
  then show ?case by simp
next
  case (Cons item items)
  let ?m' = "if LessThan item m then item else m"
  have lt: "LessThan item m = (d_value item < d_value m)"
    using Cons.prems by (simp add: LessThan_same_exp)
  have ex: "\<forall>d\<in>set (?m' # items). d_exp d = e" using Cons.prems by simp
  have v: "d_value ?m' = min (d_value item) (d_value m)" by (simp add: lt min_def)
  have "min_loop m (item # items) = min_loop ?m' items" by simp
  also have "\<dots> = \<lparr>d_value = Min (d_value ` set (?m' # items)), d_exp = e\<rparr>"
    by (rule Cons.IH [OF ex])
  also have "Min (d_value ` set (?m' # items)) = Min (d_value ` set (m # item # items))"
  proof (cases "items = []")
    case True
    then show ?thesis by (simp add: v min.commute)
  next
    case False
    then show ?thesis
      unfolding list.set image_insert
      by (simp add: v min.assoc min.commute del: if_image_distrib)
  qed
  finally show ?case .
qed

lemma sortDecimalArray_eq:
  "as \<noteq> [] \<Longrightarrow>
   sortDecimalArray (map dec_of as) = Inr (int_String (10 * Min (tail_value ` set as)))"
proof -
  assume ne: "as \<noteq> []"
  then obtain a rest where as: "as = a # rest" by (cases as) auto
  have ex: "\<forall>d\<in>set (dec_of a # map dec_of as). d_exp d = 1"
    by (auto simp: dec_of_def)
  have img: "d_value ` set (dec_of a # map dec_of as) = tail_value ` set as"
    by (auto simp: as dec_of_def image_iff)
  have "min_loop (dec_of a) (map dec_of as) = \<lparr>d_value = Min (tail_value ` set as), d_exp = 1\<rparr>"
    using min_loop_Min [OF ex] by (simp only: img)
  then show ?thesis
    by (simp add: sortDecimalArray_def as decimal_String_def rescale0_def mult.commute)
qed

lemma sortDecimalArray_util_eq:
  "as \<noteq> [] \<Longrightarrow>
   sortDecimalArray_util (map dec_of as) = Inr (wrap64 (10 * Min (tail_value ` set as)))"
proof -
  assume ne: "as \<noteq> []"
  then obtain a rest where as: "as = a # rest" by (cases as) auto
  have ex: "\<forall>d\<in>set (dec_of a # map dec_of as). d_exp d = 1"
    by (auto simp: dec_of_def)
  have img: "d_value ` set (dec_of a # map dec_of as) = tail_value ` set as"
    by (auto simp: as dec_of_def image_iff)
  have "min_loop (dec_of a) (map dec_of as) = \<lparr>d_value = Min (tail_value ` set as), d_exp = 1\<rparr>"
    using min_loop_Min [OF ex] by (simp only: img)
  then show ?thesis
    by (simp add: sortDecimalArray_util_def as IntPart_def rescale0_def mult.commute)
qed

lemma getHashResult_eq:
  "getHashResult ifs =
     (if \<exists>a\<in>set (addressed ifs). length a = 1 then Inl NilPointerDereference
      else if addressed ifs = [] then Inl IndexOutOfRange
      else Inr (uid_of (int_String (10 * Min (tail_value ` set (addressed ifs))))))"
proof -
  have one: "(\<exists>i\<in>set ifs. length (HardwareAddr i) = 1) \<longleftrightarrow>
      (\<exists>a\<in>set (addressed ifs). length a = 1)"
    by (fastforce simp: addressed_def)
  show ?thesis
  proof (cases "\<exists>a\<in>set (addressed ifs). length a = 1")
    case True
    then show ?thesis using one by (simp add: getHashResult_def collect_eq)
  next
    case False
    note no1 = this
    show ?thesis
    proof (cases "addressed ifs = []")
      case True
      then show ?thesis using no1 one
        by (simp add: getHashResult_def collect_eq sortDecimalArray_def addressed_def)
    next
      case False
      then show ?thesis using no1 one sortDecimalArray_eq [OF False]
        by (simp add: getHashResult_def collect_eq addressed_def hash_tail_eq)
    qed
  qed
qed

lemma inner_loop_eq:
  "inner_loop name isVirtual vs = (vs \<noteq> [] \<and> \<not> isVirtual \<and> name \<notin> set vs)"
  by (induction name isVirtual vs rule: inner_loop.induct) auto

lemma physical_eq:
  "physicalNetInterfaces vs ifs =
     map (\<lambda>i. HardwareAddr_String (HardwareAddr i)) (filter (is_physical vs) ifs)"
  by (induction ifs) (auto simp: String_empty inner_loop_eq is_physical_def)

lemma keys_loop_eq:
  "\<forall>a\<in>set as. a \<noteq> [] \<Longrightarrow>
   map_sum id fst (keys_loop (map HardwareAddr_String as) acc) =
     (if \<exists>a\<in>set as. length a = 1 then Inl NilPointerDereference
      else Inr (fst acc @ map dec_of as))"
proof (induction as arbitrary: acc)
  case Nil
  then show ?case by simp
next
  case (Cons a as)
  have ne: "a \<noteq> []" and rest: "\<forall>a\<in>set as. a \<noteq> []" using Cons.prems by simp_all
  have some: "NewFromBigInt (Some (tail_value a)) (Suc 0) = Inr (dec_of a)"
    and none: "NewFromBigInt None (Suc 0) = Inl NilPointerDereference"
    by (simp_all add: NewFromBigInt_def dec_of_def)
  show ?case
    using Cons.IH [OF rest, of "(fst acc @ [dec_of a], (snd acc)(IntPart (dec_of a) \<mapsto> HardwareAddr_String a))"]
    by (simp add: hexToBigInt_address [OF ne] some none)
qed

lemma GetUniqueId_eq:
  "map_sum id fst (GetUniqueId ifs out) =
     (if \<exists>a\<in>set (physical out ifs). length a = 1 then Inl NilPointerDereference
      else if physical out ifs = [] then Inl IndexOutOfRange
      else Inr (uid_of (int_String (wrap64 (10 * Min (tail_value ` set (physical out ifs)))))))"
proof -
  have ne: "\<forall>a\<in>set (physical out ifs). a \<noteq> []"
    by (auto simp: physical_def is_physical_def)
  have p: "physicalNetInterfaces (virtualNetInterfaces out) ifs =
      map HardwareAddr_String (physical out ifs)"
    by (simp add: physical_eq physical_def comp_def)
  note k = keys_loop_eq [OF ne, of "([], Map.empty)"]
  show ?thesis
  proof (cases "keys_loop (map HardwareAddr_String (physical out ifs)) ([], Map.empty)")
    case (Inl e)
    then show ?thesis using k
      by (auto simp: GetUniqueId_def p split: if_splits)
  next
    case (Inr r)
    then have no1: "\<not> (\<exists>a\<in>set (physical out ifs). length a = 1)"
      and r: "fst r = map dec_of (physical out ifs)"
      using k by (simp_all split: if_splits)
    show ?thesis
    proof (cases "physical out ifs = []")
      case True
      then show ?thesis using Inr r
        by (simp add: GetUniqueId_def p sortDecimalArray_util_def)
    next
      case False
      then show ?thesis using Inr r no1 sortDecimalArray_util_eq [OF False]
        by (simp add: GetUniqueId_def p hash_tail_eq)
    qed
  qed
qed

lemma related_step:
  assumes "same_but_first_octet i j"
  shows "(HardwareAddr i = []) = (HardwareAddr j = [])"
    and "length (HardwareAddr i) = length (HardwareAddr j)"
    and "tail_value (HardwareAddr i) = tail_value (HardwareAddr j)"
    and "is_physical vs i = is_physical vs j"
proof -
  from assms have n: "Name i = Name j" and l: "length (HardwareAddr i) = length (HardwareAddr j)"
    and t: "tl (HardwareAddr i) = tl (HardwareAddr j)"
    by (simp_all add: same_but_first_octet_def)
  from l show e: "(HardwareAddr i = []) = (HardwareAddr j = [])" by (metis length_0_conv)
  from l show "length (HardwareAddr i) = length (HardwareAddr j)" .
  from t show "tail_value (HardwareAddr i) = tail_value (HardwareAddr j)"
    by (simp only: tail_value_def)
  from n e show "is_physical vs i = is_physical vs j" by (simp only: is_physical_def)
qed

lemma related_addressed:
  "list_all2 same_but_first_octet ifs ifs' \<Longrightarrow>
   map length (addressed ifs) = map length (addressed ifs') \<and>
   map tail_value (addressed ifs) = map tail_value (addressed ifs')"
proof (induction rule: list_all2_induct)
  case Nil
  then show ?case by (simp add: addressed_def)
next
  case (Cons i xs j ys)
  note s = related_step [OF Cons.hyps(1)]
  from Cons.IH s(1) s(2) s(3) show ?case
    by (simp add: addressed_def)
qed

lemma related_physical:
  "list_all2 same_but_first_octet ifs ifs' \<Longrightarrow>
   map length (physical out ifs) = map length (physical out ifs') \<and>
   map tail_value (physical out ifs) = map tail_value (physical out ifs')"
proof (induction rule: list_all2_induct)
  case Nil
  then show ?case by (simp add: physical_def)
next
  case (Cons i xs j ys)
  note s = related_step [OF Cons.hyps(1)]
  from Cons.IH s(2) s(3) s(4) [of "virtualNetInterfaces out"] show ?case
    by (simp add: physical_def)
qed

lemma same_maps:
  assumes "map length as = map length bs" and "map tail_value as = map tail_value bs"
  shows "(\<exists>a\<in>set as. length a = 1) = (\<exists>b\<in>set bs. length b = 1)"
    and "(as = []) = (bs = [])"
    and "tail_value ` set as = tail_value ` set bs"
proof -
  have "length ` set as = length ` set bs" using assms(1) by (metis set_map)
  then show "(\<exists>a\<in>set as. length a = 1) = (\<exists>b\<in>set bs. length b = 1)"
    by (metis (no_types, lifting) image_iff)
  show "(as = []) = (bs = [])" using assms(1) by (metis map_is_Nil_conv)
  show "tail_value ` set as = tail_value ` set bs" using assms(2) by (metis set_map)
qed



lemma physical_subset: "set (physical out ifs) \<subseteq> set (addressed ifs)"
  by (auto simp: physical_def addressed_def is_physical_def)



lemma full_value_parse:
  "a \<noteq> [] \<Longrightarrow> SetString16 (strip_colons (HardwareAddr_String a)) = Some (full_value a)"
  by (simp add: strip_String SetString16_hex_encode full_value_def)

lemma tail_value_zero_octet: "a \<noteq> [] \<Longrightarrow> hd a = 0 \<Longrightarrow> tail_value a = full_value a"
  by (cases a) (simp_all add: tail_value_def full_value_def be_val_def)

text \<open>Concrete hosts.\<close>

lemma example_addresses:
  "HardwareAddr lo = []" "HardwareAddr eth0 \<noteq> []" "HardwareAddr eth1 \<noteq> []"
  "HardwareAddr eth2 \<noteq> []" "HardwareAddr arc0 \<noteq> []" "HardwareAddr eth0_other \<noteq> []"
  "length (HardwareAddr eth0) = 6" "length (HardwareAddr eth1) = 6"
  "length (HardwareAddr eth2) = 6" "length (HardwareAddr arc0) = 1"
  "length (HardwareAddr eth0_other) = 6"
  by (simp_all add: lo_def eth0_def eth1_def eth2_def arc0_def eth0_other_def)

lemma example_names:
  "Name lo = ''lo''" "Name eth0 = ''eth0''" "Name eth1 = ''eth1''" "Name eth2 = ''eth2''"
  "Name arc0 = ''arc0''" "Name eth0_other = ''eth0''"
  by (simp_all add: lo_def eth0_def eth1_def eth2_def arc0_def eth0_other_def)

lemma example_values:
  "tail_value (HardwareAddr eth0) = 5" "tail_value (HardwareAddr eth1) = 3"
  "tail_value (HardwareAddr eth2) = 7" "full_value (HardwareAddr eth0) = 2199023255557"
  "full_value (HardwareAddr eth1) = 10995116277763" "full_value (HardwareAddr eth2) = 7"
  by (simp_all add: tail_value_def full_value_def be_val_def eth0_def eth1_def eth2_def)

lemma example_strings:
  "int_String 30 = ''30''" "int_String 70 = ''70''" "int_String 7 = ''7''"
  "int_String 2199023255557 = ''2199023255557''"
  by (simp_all add: int_String_def nat_String.simps hexDigit_def)

lemma example_listings:
  "virtualNetInterfaces ls_listing = [''docker0'', ''lo'']"
  "virtualNetInterfaces ls_failed = []"
  by code_simp+

lemma addressed_Cons:
  "addressed (i # ifs) = (if HardwareAddr i = [] then addressed ifs
                         else HardwareAddr i # addressed ifs)"
  "addressed [] = []"
  by (simp_all add: addressed_def)

lemma physical_Cons:
  "physical out (i # ifs) = (if is_physical (virtualNetInterfaces out) i
                            then HardwareAddr i # physical out ifs else physical out ifs)"
  "physical out [] = []"
  by (simp_all add: physical_def)

lemmas example_simps = example_addresses example_names example_values example_strings
  example_listings addressed_Cons physical_Cons is_physical_def

text \<open>
  Claim C7, as amended. For every list of hardware addresses of at least two octets
  each: the routine strips the separators from each address, parses what follows the
  first two hexadecimal digits of the result as a hexadecimal big integer
  (\<open>tail_value\<close>; it is the integer of the whole address when the first octet is 00),
  selects the numerically smallest, computes the SHA-1 of the decimal string of ten
  times that integer (\<open>GetUniqueId\<close>: of the low 64 bits of the product), and returns
  the last 20 hexadecimal characters of the digest; this for \<open>getHashResult\<close> when some
  address is not empty, and for \<open>GetUniqueId\<close> when it keeps some interface.
\<close>

theorem unique_id_computation:
  assumes "\<forall>a\<in>set (addressed ifs). 2 \<le> length a"
  shows "(addressed ifs \<noteq> [] \<longrightarrow>
            getHashResult ifs =
              Inr (uid_of (int_String (10 * Min (tail_value ` set (addressed ifs)))))) \<and>
         (physical out ifs \<noteq> [] \<longrightarrow>
            map_sum id fst (GetUniqueId ifs out) =
              Inr (uid_of (int_String
                     (wrap64 (10 * Min (tail_value ` set (physical out ifs))))))) \<and>
         (\<forall>a\<in>set (addressed ifs).
            hexToBigInt (strip_colons (HardwareAddr_String a)) = Inr (Some (tail_value a)) \<and>
            SetString16 (strip_colons (HardwareAddr_String a)) = Some (full_value a) \<and>
            (hd a = 0 \<longrightarrow> tail_value a = full_value a))"
proof -
  have no1: "\<not> (\<exists>a\<in>set (addressed ifs). length a = 1)"
    using assms by fastforce
  have no1': "\<not> (\<exists>a\<in>set (physical out ifs). length a = 1)"
    using no1 physical_subset [of out ifs] by blast
  have ne: "\<forall>a\<in>set (addressed ifs). a \<noteq> []"
    by (simp add: addressed_def)
  have 1: "addressed ifs \<noteq> [] \<longrightarrow>
      getHashResult ifs =
        Inr (uid_of (int_String (10 * Min (tail_value ` set (addressed ifs)))))"
    using no1 by (simp add: getHashResult_eq)
  have 2: "physical out ifs \<noteq> [] \<longrightarrow>
      map_sum id fst (GetUniqueId ifs out) =
        Inr (uid_of (int_String (wrap64 (10 * Min (tail_value ` set (physical out ifs))))))"
    using no1' by (simp add: GetUniqueId_eq)
  have 3: "\<forall>a\<in>set (addressed ifs).
      hexToBigInt (strip_colons (HardwareAddr_String a)) = Inr (Some (tail_value a)) \<and>
      SetString16 (strip_colons (HardwareAddr_String a)) = Some (full_value a) \<and>
      (hd a = 0 \<longrightarrow> tail_value a = full_value a)"
  proof
    fix a assume a: "a \<in> set (addressed ifs)"
    then have n: "a \<noteq> []" and l: "length a \<noteq> 1" using ne no1 by auto
    show "hexToBigInt (strip_colons (HardwareAddr_String a)) = Inr (Some (tail_value a)) \<and>
      SetString16 (strip_colons (HardwareAddr_String a)) = Some (full_value a) \<and>
      (hd a = 0 \<longrightarrow> tail_value a = full_value a)"
      using hexToBigInt_address [OF n] full_value_parse [OF n] tail_value_zero_octet [OF n] l
      by simp
  qed
  from 1 2 3 show ?thesis by blast
qed

theorem unique_id_computation_witness:
  "2 \<le> length (HardwareAddr eth0) \<and> 2 \<le> length (HardwareAddr eth1) \<and>
   addressed [lo, eth0, eth1] \<noteq> [] \<and> physical ls_listing [lo, eth0, eth1] \<noteq> [] \<and>
   getHashResult [lo, eth0, eth1] = Inr (uid_of ''30'') \<and>
   map_sum id fst (GetUniqueId [lo, eth0, eth1] ls_listing) = Inr (uid_of ''30'')"
proof -
  have a: "addressed [lo, eth0, eth1] = [HardwareAddr eth0, HardwareAddr eth1]"
    and p: "physical ls_listing [lo, eth0, eth1] = [HardwareAddr eth0, HardwareAddr eth1]"
    by (simp_all add: example_simps)
  have h: "\<forall>a\<in>set (addressed [lo, eth0, eth1]). 2 \<le> length a"
    by (simp add: a example_addresses)
  have w: "wrap64 30 = 30" by (simp add: wrap64_def)
  show ?thesis
    using unique_id_computation [OF h, of ls_listing]
    by (simp add: a p example_values example_strings example_addresses w)
qed

text \<open>
  The claim as stated fails on the code. On a host whose only address is
  00:00:00:00:00:07 the code hashes the string "70", not the decimal string "7" of the
  integer. On a host with 02:00:00:00:00:05 and 0a:00:00:00:00:03 the smallest address
  is the first one, 2199023255557, and the code hashes "30", ten times what follows the
  first octet of the second one. And on a host with an address of one octet nothing
  follows the first two digits: the parse fails and the routine panics.
\<close>

theorem unique_id_computation_counterexample:
  "getHashResult [lo, eth2] = Inr (uid_of ''70'') \<and>
   spec_hashed_string [lo, eth2] = ''7'' \<and>
   getHashResult [lo, eth0, eth1] = Inr (uid_of ''30'') \<and>
   spec_hashed_string [lo, eth0, eth1] = ''2199023255557'' \<and>
   HardwareAddr arc0 = [0x2A] \<and>
   getHashResult [lo, arc0] = Inl NilPointerDereference"
proof -
  have 1: "getHashResult [lo, eth2] = Inr (uid_of ''70'') \<and>
   spec_hashed_string [lo, eth2] = ''7'' \<and>
   getHashResult [lo, eth0, eth1] = Inr (uid_of ''30'') \<and>
   spec_hashed_string [lo, eth0, eth1] = ''2199023255557'' \<and>
   getHashResult [lo, arc0] = Inl NilPointerDereference"
    by (simp add: getHashResult_eq spec_hashed_string_def example_simps)
  have 2: "HardwareAddr arc0 = [0x2A]" by (simp add: arc0_def)
  from 1 2 show ?thesis by blast
qed




text \<open>
  Claim C9. When the interfaces of two hosts agree in everything but the first octet
  (the first two hexadecimal digits) of their hardware addresses, \<open>getHashResult\<close>
  returns the same on both and \<open>GetUniqueId\<close> returns the same unique id on both,
  because \<open>hexToBigInt\<close> does not look at the first two characters of its argument.
\<close>

theorem unique_id_ignores_first_octet:
  assumes "list_all2 same_but_first_octet ifs ifs'"
  shows "getHashResult ifs = getHashResult ifs' \<and>
         map_sum id fst (GetUniqueId ifs out) = map_sum id fst (GetUniqueId ifs' out) \<and>
         hexToBigInt (c1 # c2 # rest) = hexToBigInt (c1' # c2' # rest)"
proof -
  note a = same_maps [OF related_addressed [OF assms, THEN conjunct1]
      related_addressed [OF assms, THEN conjunct2]]
  note p = same_maps [OF related_physical [OF assms, THEN conjunct1]
      related_physical [OF assms, THEN conjunct2], of out]
  have 1: "getHashResult ifs = getHashResult ifs'"
    unfolding getHashResult_eq a ..
  have 2: "map_sum id fst (GetUniqueId ifs out) = map_sum id fst (GetUniqueId ifs' out)"
    unfolding GetUniqueId_eq p ..
  have 3: "hexToBigInt (c1 # c2 # rest) = hexToBigInt (c1' # c2' # rest)"
    by (simp add: hexToBigInt_def)
  from 1 2 3 show ?thesis by simp
qed

theorem unique_id_ignores_first_octet_witness:
  "list_all2 same_but_first_octet [lo, eth0, eth1] [lo, eth0_other, eth1] \<and>
   HardwareAddr eth0 \<noteq> HardwareAddr eth0_other \<and>
   getHashResult [lo, eth0, eth1] = getHashResult [lo, eth0_other, eth1] \<and>
   map_sum id fst (GetUniqueId [lo, eth0, eth1] ls_listing) =
     map_sum id fst (GetUniqueId [lo, eth0_other, eth1] ls_listing) \<and>
   hexToBigInt ''020000000005'' = hexToBigInt ''aa0000000005''"
proof -
  have h: "list_all2 same_but_first_octet [lo, eth0, eth1] [lo, eth0_other, eth1]"
    by (simp add: same_but_first_octet_def eth0_def eth0_other_def)
  have d: "HardwareAddr eth0 \<noteq> HardwareAddr eth0_other"
    by (simp add: eth0_def eth0_other_def)
  from unique_id_ignores_first_octet [OF h, of ls_listing "CHR ''0''" "CHR ''2''"
      "''0000000005''" "CHR ''a''" "CHR ''a''"] h d
  show ?thesis by simp
qed

text \<open>
  Claim C10. When every interface of the host has an empty hardware address, nothing
  is collected, \<open>sortDecimalArray\<close> is called with the empty slice and indexes its
  element 0, and the routine panics with an index out of range, in both files.
\<close>

theorem unique_id_panics_without_address:
  assumes "\<forall>i\<in>set ifs. HardwareAddr i = []"
  shows "collect ifs [] = Inr [] \<and> sortDecimalArray [] = Inl IndexOutOfRange \<and>
         getHashResult ifs = Inl IndexOutOfRange \<and>
         sortDecimalArray_util [] = Inl IndexOutOfRange \<and>
         GetUniqueId ifs out = Inl IndexOutOfRange"
proof -
  have a: "addressed ifs = []" using assms by (simp add: addressed_def)
  have p: "physical out ifs = []" using assms by (simp add: physical_def is_physical_def)
  have c: "collect ifs [] = Inr []" using assms a by (simp add: collect_eq addressed_def)
  have g: "getHashResult ifs = Inl IndexOutOfRange" by (simp add: getHashResult_eq a)
  have "map_sum id fst (GetUniqueId ifs out) = Inl IndexOutOfRange"
    by (simp add: GetUniqueId_eq p)
  then have u: "GetUniqueId ifs out = Inl IndexOutOfRange"
    by (cases "GetUniqueId ifs out") simp_all
  from c g u show ?thesis by (simp add: sortDecimalArray_def sortDecimalArray_util_def)
qed

theorem unique_id_panics_without_address_witness:
  "HardwareAddr lo = [] \<and>
   getHashResult [lo, lo] = Inl IndexOutOfRange \<and>
   GetUniqueId [lo, lo] ls_listing = Inl IndexOutOfRange \<and>
   getHashResult [] = Inl IndexOutOfRange"
proof -
  have h: "\<forall>i\<in>set [lo, lo]. HardwareAddr i = []" by (simp add: lo_def)
  have h0: "\<forall>i\<in>set ([] :: interface list). HardwareAddr i = []" by simp
  from unique_id_panics_without_address [OF h, of ls_listing]
    unique_id_panics_without_address [OF h0, of ls_listing]
  show ?thesis by (simp add: lo_def)
qed

end
